theory Spec2Isabelle
  imports Complex_Main "HOL-Library.Sublist"
begin

section \<open>JavaScript values\<close>

text \<open>
  The configuration loader casts the result of \<^verbatim>\<open>yaml.parse\<close> to
  \<^verbatim>\<open>Partial<Config>\<close> without checking it, and the REPL reads the properties of
  whatever \<^verbatim>\<open>JSON.parse\<close> returns. What the code does therefore depends on the value
  at run time and not on the TypeScript annotation, and the model works on run-time values.

  \<^item> \<open>JNumber\<close> carries the numerical value of the number. Neither parser yields
    \<^verbatim>\<open>NaN\<close>, so a number is falsy exactly when it is zero.
  \<^item> \<open>JObject\<close> is a plain object: its own enumerable properties, in the order in
    which \<^verbatim>\<open>Object.keys\<close> and \<^verbatim>\<open>Object.entries\<close> enumerate them. Keys are
    distinct. For a document whose keys are not array indices this is the order of
    declaration; \<open>plain_object\<close> below gives the order in general.
  \<^item> \<open>JBuiltin n\<close> is the member \<open>n\<close> that a plain object or an array inherits from
    its prototype (\<^verbatim>\<open>Object.prototype.toString\<close>, say). It is an object, hence
    truthy. No parser produces it; only a property read does.
\<close>

datatype jsval =
    JUndefined
  | JNull
  | JBool bool
  | JNumber rat
  | JString string
  | JArray "jsval list"
  | JObject "(string \<times> jsval) list"
  | JBuiltin string

text \<open>
  What a \<^verbatim>\<open>throw\<close> carries. \<open>Error\<close> is an instance of \<^verbatim>\<open>Error\<close> created by
  the program or a library, \<open>TypeError\<close> one raised by the engine (its message is the
  engine's and is abbreviated here); both are \<^verbatim>\<open>instanceof Error\<close>. \<open>Thrown s\<close>
  is any other thrown value, given by its image \<open>s\<close> under \<^verbatim>\<open>String\<close>.
\<close>

datatype js_error = Error string | TypeError string | Thrown string

text \<open>Sequencing: an exception of the first step skips the rest.\<close>

definition bindE :: "js_error + 'a \<Rightarrow> ('a \<Rightarrow> js_error + 'b) \<Rightarrow> js_error + 'b" where
  "bindE m f = (case m of Inl e \<Rightarrow> Inl e | Inr v \<Rightarrow> f v)"

text \<open>\<^verbatim>\<open>error instanceof Error ? error.message : String(error)\<close>\<close>

fun errorMessage :: "js_error \<Rightarrow> string" where
  "errorMessage (Error m) = m"
| "errorMessage (TypeError m) = m"
| "errorMessage (Thrown s) = s"

text \<open>\<^verbatim>\<open>!v\<close> is \<open>\<not> truthy v\<close>; \<^verbatim>\<open>a || b\<close> is \<open>js_or a b\<close>.\<close>

fun truthy :: "jsval \<Rightarrow> bool" where
  "truthy JUndefined = False"
| "truthy JNull = False"
| "truthy (JBool b) = b"
| "truthy (JNumber n) = (n \<noteq> 0)"
| "truthy (JString s) = (s \<noteq> [])"
| "truthy (JArray xs) = True"
| "truthy (JObject ps) = True"
| "truthy (JBuiltin n) = True"

definition js_or :: "jsval \<Rightarrow> jsval \<Rightarrow> jsval" where
  "js_or a b = (if truthy a then a else b)"

fun typeof :: "jsval \<Rightarrow> string" where
  "typeof JUndefined = ''undefined''"
| "typeof JNull = ''object''"
| "typeof (JBool b) = ''boolean''"
| "typeof (JNumber n) = ''number''"
| "typeof (JString s) = ''string''"
| "typeof (JArray xs) = ''object''"
| "typeof (JObject ps) = ''object''"
| "typeof (JBuiltin n) = (if n = ''__proto__'' then ''object'' else ''function'')"

text \<open>The canonical decimal numeral of an array index.\<close>

fun string_of_nat :: "nat \<Rightarrow> string" where
  "string_of_nat n =
     (if n < 10 then [''0123456789'' ! n]
      else string_of_nat (n div 10) @ [''0123456789'' ! (n mod 10)])"

declare string_of_nat.simps [simp del]

text \<open>The members every plain object inherits from \<^verbatim>\<open>Object.prototype\<close>.\<close>

definition object_prototype_names :: "string list" where
  "object_prototype_names =
     [''constructor'', ''__proto__'', ''hasOwnProperty'', ''isPrototypeOf'',
      ''propertyIsEnumerable'', ''toLocaleString'', ''toString'', ''valueOf'',
      ''__defineGetter__'', ''__defineSetter__'', ''__lookupGetter__'', ''__lookupSetter__'']"

text \<open>The members an array inherits from \<^verbatim>\<open>Array.prototype\<close> (Node 22).\<close>

definition array_prototype_names :: "string list" where
  "array_prototype_names =
     [''at'', ''concat'', ''copyWithin'', ''entries'', ''every'', ''fill'', ''filter'', ''find'',
      ''findIndex'', ''findLast'', ''findLastIndex'', ''flat'', ''flatMap'', ''forEach'',
      ''includes'', ''indexOf'', ''join'', ''keys'', ''lastIndexOf'', ''map'', ''pop'', ''push'',
      ''reduce'', ''reduceRight'', ''reverse'', ''shift'', ''slice'', ''some'', ''sort'',
      ''splice'', ''toReversed'', ''toSorted'', ''toSpliced'', ''unshift'', ''values'', ''with'']"

text \<open>
  A property read \<^verbatim>\<open>v[k]\<close> (or \<^verbatim>\<open>v.k\<close>). Reading from \<^verbatim>\<open>undefined\<close> or
  \<^verbatim>\<open>null\<close> throws. A plain object answers with its own property and otherwise with
  the member it inherits, if \<open>k\<close> names one; an array answers with the element at index
  \<open>k\<close>, its length, or an inherited member. From a primitive or from an inherited
  member the program reads only the names \<^verbatim>\<open>profiles\<close>, \<^verbatim>\<open>authToken\<close>,
  \<^verbatim>\<open>organization\<close>, \<^verbatim>\<open>baseUrl\<close>, \<^verbatim>\<open>defaultProfile\<close>, \<^verbatim>\<open>defaultFormat\<close>,
  \<^verbatim>\<open>profile\<close>, \<^verbatim>\<open>format\<close>, \<^verbatim>\<open>projectSlug\<close>, \<^verbatim>\<open>issueId\<close>, \<^verbatim>\<open>eventId\<close>
  and \<^verbatim>\<open>tagKey\<close>, none of which such a value has: those reads give
  \<^verbatim>\<open>undefined\<close>. (The one read under an arbitrary name, \<^verbatim>\<open>config.profiles[profileName]\<close>,
  is from the \<^verbatim>\<open>profiles\<close> of a configuration, which the loader has checked to be
  an object.)
\<close>

fun get_prop :: "jsval \<Rightarrow> string \<Rightarrow> js_error + jsval" where
  "get_prop JUndefined k = Inl (TypeError (''Cannot read properties of undefined: '' @ k))"
| "get_prop JNull k = Inl (TypeError (''Cannot read properties of null: '' @ k))"
| "get_prop (JObject ps) k =
     Inr (case map_of ps k of
            Some v \<Rightarrow> v
          | None \<Rightarrow> if k \<in> set object_prototype_names then JBuiltin k else JUndefined)"
| "get_prop (JArray xs) k =
     Inr (case find (\<lambda>i. string_of_nat i = k) [0..<length xs] of
            Some i \<Rightarrow> xs ! i
          | None \<Rightarrow>
              if k = ''length'' then JNumber (of_nat (length xs))
              else if k \<in> set array_prototype_names \<or> k \<in> set object_prototype_names
              then JBuiltin k else JUndefined)"
| "get_prop v k = Inr JUndefined"

text \<open>\<^verbatim>\<open>Object.entries(v)\<close> and \<^verbatim>\<open>Object.keys(v)\<close> for an object or an array.\<close>

fun object_entries :: "jsval \<Rightarrow> (string \<times> jsval) list" where
  "object_entries (JObject ps) = ps"
| "object_entries (JArray xs) = zip (map string_of_nat [0..<length xs]) xs"
| "object_entries v = []"

definition object_keys :: "jsval \<Rightarrow> string list" where
  "object_keys v = map fst (object_entries v)"

text \<open>\<^verbatim>\<open>xs[0]\<close> on an array of strings: \<^verbatim>\<open>undefined\<close> when the array is empty.\<close>

definition first_key :: "string list \<Rightarrow> jsval" where
  "first_key ks = (case ks of [] \<Rightarrow> JUndefined | k # _ \<Rightarrow> JString k)"






text \<open>\<^verbatim>\<open>xs.join(', ')\<close>\<close>

fun join :: "string \<Rightarrow> string list \<Rightarrow> string" where
  "join sep [] = []"
| "join sep [x] = x"
| "join sep (x # y # ys) = x @ sep @ join sep (y # ys)"

text \<open>
  The method call \<^verbatim>\<open>v.startsWith(p)\<close>: only a string has the method; on any other
  value that passed the truthiness test the call raises a TypeError.
\<close>

fun startsWith :: "jsval \<Rightarrow> string \<Rightarrow> js_error + bool" where
  "startsWith (JString s) p = Inr (prefix p s)"
| "startsWith v p = Inl (TypeError ''startsWith is not a function'')"

section \<open>Configuration loader (\<^verbatim>\<open>utils/config-loader.ts\<close>)\<close>

text \<open>
  The interface \<^verbatim>\<open>Config\<close>. The fields hold what the parser delivered: the
  annotations \<^verbatim>\<open>string\<close> and \<^verbatim>\<open>'json' | 'toon'\<close> are not checked at run time.
\<close>

record Config =
  profiles :: jsval
  defaultProfile :: jsval
  defaultFormat :: jsval

record SentryClientOptions =
  authToken :: jsval
  organization :: jsval
  baseUrl :: jsval

text \<open>
  What the loader takes from Node and from the \<^verbatim>\<open>yaml\<close> package: \<^verbatim>\<open>path.join\<close>,
  \<^verbatim>\<open>fs.existsSync\<close>, \<^verbatim>\<open>fs.readFileSync(_, 'utf-8')\<close> and \<^verbatim>\<open>yaml.parse\<close>.
  Reading and parsing can throw.
\<close>

record host =
  path_join :: "string list \<Rightarrow> string"
  existsSync :: "string \<Rightarrow> bool"
  readFileSync :: "string \<Rightarrow> js_error + string"
  yaml_parse :: "string \<Rightarrow> js_error + jsval"

text \<open>
  \<^verbatim>\<open>content.match(/^---\n([\s\S]*?)\n---/)\<close>: without the \<^verbatim>\<open>m\<close> flag the match is
  anchored at the start of the content; the lazy group captures the shortest text that is
  followed by a newline and three dashes. \<open>before_marker\<close> is that search.
\<close>

fun before_marker :: "string \<Rightarrow> string option" where
  \<open>before_marker [] = None\<close>
| \<open>before_marker (c # cs) =
     (if prefix ''\<newline>---'' (c # cs) then Some []
      else map_option ((#) c) (before_marker cs))\<close>

definition frontmatter_match :: "string \<Rightarrow> string option" where
  \<open>frontmatter_match content =
     (if prefix ''---\<newline>'' content then before_marker (drop 4 content) else None)\<close>

text \<open>The inner loop \<^verbatim>\<open>for (const field of required)\<close>.\<close>

fun check_required :: "string \<Rightarrow> jsval \<Rightarrow> string list \<Rightarrow> js_error + unit" where
  \<open>check_required profileName profile [] = Inr ()\<close>
| \<open>check_required profileName profile (field # others) =
     bindE (get_prop profile field) (\<lambda>v.
       if \<not> truthy v
       then Inl (Error (''Profile "'' @ profileName @ ''" missing required field: '' @ field))
       else check_required profileName profile others)\<close>

definition validate_baseUrl :: "string \<Rightarrow> jsval \<Rightarrow> js_error + unit" where
  \<open>validate_baseUrl profileName profile =
     bindE (get_prop profile ''baseUrl'') (\<lambda>b.
       if \<not> truthy b then Inr ()
       else bindE (startsWith b ''http://'') (\<lambda>http.
         if http then Inr ()
         else bindE (startsWith b ''https://'') (\<lambda>https.
           if https then Inr ()
           else Inl (Error (''Profile "'' @ profileName
                             @ ''" baseUrl must start with http:// or https://'')))))\<close>

text \<open>The outer loop over \<^verbatim>\<open>Object.entries(config.profiles)\<close>.\<close>

fun validate_profiles :: "(string \<times> jsval) list \<Rightarrow> js_error + unit" where
  \<open>validate_profiles [] = Inr ()\<close>
| \<open>validate_profiles ((profileName, profile) # rest) =
     bindE (check_required profileName profile [''authToken'', ''organization'']) (\<lambda>_.
     bindE (validate_baseUrl profileName profile) (\<lambda>_.
     validate_profiles rest))\<close>

text \<open>Everything after \<^verbatim>\<open>yaml.parse\<close>: validation and defaults.\<close>

definition validate_config :: "jsval \<Rightarrow> js_error + Config" where
  \<open>validate_config config =
     bindE (get_prop config ''profiles'') (\<lambda>profs.
       if \<not> truthy profs \<or> typeof profs \<noteq> ''object''
       then Inl (Error ''Configuration must include "profiles" object'')
       else
         bindE (validate_profiles (object_entries profs)) (\<lambda>_.
         bindE (get_prop config ''defaultProfile'') (\<lambda>dp.
         bindE (get_prop config ''defaultFormat'') (\<lambda>df.
           Inr \<lparr>profiles = profs,
                defaultProfile = js_or dp (first_key (object_keys profs)),
                defaultFormat = js_or df (JString ''json'')\<rparr>))))\<close>

definition configPath :: "host \<Rightarrow> string \<Rightarrow> string" where
  \<open>configPath h projectRoot = path_join h [projectRoot, ''.claude'', ''sentry-config.local.md'']\<close>

text \<open>
  \<^verbatim>\<open>loadConfig\<close> in two steps: the document is found, read, matched and parsed; then
  it is validated and completed.
\<close>

definition read_document :: "host \<Rightarrow> string \<Rightarrow> js_error + jsval" where
  \<open>read_document h projectRoot =
     (if \<not> existsSync h (configPath h projectRoot)
      then Inl (Error (''Configuration file not found at '' @ configPath h projectRoot
                       @ ''\<newline>''
                       @ ''Please create .claude/sentry-config.local.md with your Sentry profiles.''))
      else
        bindE (readFileSync h (configPath h projectRoot)) (\<lambda>content.
          case frontmatter_match content of
            None \<Rightarrow>
              Inl (Error (''Invalid configuration file format. ''
                          @ ''Expected YAML frontmatter (---...---) at the beginning.''))
          | Some frontmatter \<Rightarrow> yaml_parse h frontmatter))\<close>

definition loadConfig :: "host \<Rightarrow> string \<Rightarrow> js_error + Config" where
  \<open>loadConfig h projectRoot = bindE (read_document h projectRoot) validate_config\<close>

definition getSentryClientOptions :: "Config \<Rightarrow> string \<Rightarrow> js_error + SentryClientOptions" where
  \<open>getSentryClientOptions config profileName =
     bindE (get_prop (profiles config) profileName) (\<lambda>profile.
       if \<not> truthy profile
       then Inl (Error (''Profile "'' @ profileName @ ''" not found. Available profiles: ''
                        @ join '', '' (object_keys (profiles config))))
       else
         bindE (get_prop profile ''authToken'') (\<lambda>token.
         bindE (get_prop profile ''organization'') (\<lambda>org.
         bindE (get_prop profile ''baseUrl'') (\<lambda>url.
           Inr \<lparr>authToken = token,
                organization = org,
                baseUrl = js_or url (JString ''https://sentry.io/api/0'')\<rparr>))))\<close>

section \<open>The REPL's command dispatch (\<^verbatim>\<open>cli/wrapper.ts\<close>)\<close>

text \<open>
  Modelled from the spec: the interface \<^verbatim>\<open>ApiResult\<close> is declared in
  \<^verbatim>\<open>utils/sentry-utils.ts\<close>, which is not among the sources. It is the tagged union
  \<^verbatim>\<open>{success: true, result}\<close> or \<^verbatim>\<open>{success: false, error}\<close>.
\<close>

datatype ApiResult = Success string | Failure string

text \<open>
  A call of one of the thirteen functions of \<^verbatim>\<open>utils/sentry-client.ts\<close>: its name
  and its arguments in order. The functions themselves are not among the sources; the
  dispatcher is verified for every behaviour they can have (\<open>api\<close> below).
\<close>

datatype api_call = ApiCall string "jsval list"

text \<open>What \<^verbatim>\<open>runCommand\<close> does that can be observed, in order.\<close>

datatype event =
    Console_log "string list"
  | Console_error "string list"
  | Prompt
  | Invoke api_call

record runtime =
  JSON_parse :: "string \<Rightarrow> js_error + jsval"
  api :: "api_call \<Rightarrow> js_error + ApiResult"

text \<open>The fields of the class \<^verbatim>\<open>wrapper\<close> that \<^verbatim>\<open>runCommand\<close> reads.\<close>

record cli_state =
  cli_config :: "Config option"
  currentProfile :: jsval
  currentFormat :: jsval

text \<open>\<^verbatim>\<open>arg.trim()\<close>, for text in ASCII.\<close>

definition js_whitespace :: "char \<Rightarrow> bool" where
  "js_whitespace c = (c \<in> set [CHR 0x09, CHR 0x0A, CHR 0x0B, CHR 0x0C, CHR 0x0D, CHR 0x20])"

definition trim :: "string \<Rightarrow> string" where
  "trim s = rev (dropWhile js_whitespace (rev (dropWhile js_whitespace s)))"

text \<open>
  How a \<^verbatim>\<open>case\<close> of the switch ends: with \<^verbatim>\<open>console.error(message);
  this.rl.prompt(); return\<close>, or with \<^verbatim>\<open>result = await f(...); break\<close>.
\<close>

datatype dispatch = Rejected string | Call api_call

text \<open>
  A case that tests one parameter, \<^verbatim>\<open>if (!args.p)\<close>, and one that tests two,
  \<^verbatim>\<open>if (!args.p || !args.q)\<close>.
\<close>

definition require1 ::
  "jsval \<Rightarrow> string \<Rightarrow> string \<Rightarrow> (jsval \<Rightarrow> api_call) \<Rightarrow> js_error + dispatch" where
  "require1 args p message call =
     bindE (get_prop args p) (\<lambda>v.
       if \<not> truthy v then Inr (Rejected message) else Inr (Call (call v)))"

definition require2 ::
  "jsval \<Rightarrow> string \<Rightarrow> string \<Rightarrow> string \<Rightarrow> (jsval \<Rightarrow> jsval \<Rightarrow> api_call)
     \<Rightarrow> js_error + dispatch" where
  "require2 args p q message call =
     bindE (get_prop args p) (\<lambda>v.
       if \<not> truthy v then Inr (Rejected message)
       else bindE (get_prop args q) (\<lambda>w.
         if \<not> truthy w then Inr (Rejected message) else Inr (Call (call v w))))"

text \<open>The \<^verbatim>\<open>switch (command)\<close>.\<close>

definition switch_command :: "string \<Rightarrow> jsval \<Rightarrow> jsval \<Rightarrow> jsval \<Rightarrow> js_error + dispatch" where
  \<open>switch_command command profile format args =
    (if command = ''list-project-events'' then
       require1 args ''projectSlug'' ''ERROR: "projectSlug" parameter is required''
         (\<lambda>projectSlug. ApiCall ''listProjectEvents'' [profile, projectSlug, args, format])
     else if command = ''list-project-issues'' then
       require1 args ''projectSlug'' ''ERROR: "projectSlug" parameter is required''
         (\<lambda>projectSlug. ApiCall ''listProjectIssues'' [profile, projectSlug, args, format])
     else if command = ''list-org-issues'' then
       Inr (Call (ApiCall ''listOrgIssues'' [profile, args, format]))
     else if command = ''get-issue'' then
       require1 args ''issueId'' ''ERROR: "issueId" parameter is required''
         (\<lambda>issueId. ApiCall ''getIssue'' [profile, issueId, format])
     else if command = ''update-issue'' then
       require1 args ''issueId'' ''ERROR: "issueId" parameter is required''
         (\<lambda>issueId. ApiCall ''updateIssue'' [profile, issueId, args])
     else if command = ''list-issue-events'' then
       require1 args ''issueId'' ''ERROR: "issueId" parameter is required''
         (\<lambda>issueId. ApiCall ''listIssueEvents'' [profile, issueId, args, format])
     else if command = ''get-event'' then
       require2 args ''projectSlug'' ''eventId''
         ''ERROR: "projectSlug" and "eventId" parameters are required''
         (\<lambda>projectSlug eventId. ApiCall ''getEvent'' [profile, projectSlug, eventId, format])
     else if command = ''get-issue-event'' then
       require2 args ''issueId'' ''eventId''
         ''ERROR: "issueId" and "eventId" parameters are required''
         (\<lambda>issueId eventId. ApiCall ''getIssueEvent'' [profile, issueId, eventId, format])
     else if command = ''get-tag-details'' then
       require2 args ''issueId'' ''tagKey''
         ''ERROR: "issueId" and "tagKey" parameters are required''
         (\<lambda>issueId tagKey. ApiCall ''getTagDetails'' [profile, issueId, tagKey, args, format])
     else if command = ''list-tag-values'' then
       require2 args ''issueId'' ''tagKey''
         ''ERROR: "issueId" and "tagKey" parameters are required''
         (\<lambda>issueId tagKey. ApiCall ''listTagValues'' [profile, issueId, tagKey, args, format])
     else if command = ''list-issue-hashes'' then
       require1 args ''issueId'' ''ERROR: "issueId" parameter is required''
         (\<lambda>issueId. ApiCall ''listIssueHashes'' [profile, issueId, format])
     else if command = ''debug-source-maps'' then
       require2 args ''projectSlug'' ''eventId''
         ''ERROR: "projectSlug" and "eventId" parameters are required''
         (\<lambda>projectSlug eventId.
            ApiCall ''debugSourceMaps'' [profile, projectSlug, eventId, args, format])
     else if command = ''test-connection'' then
       Inr (Call (ApiCall ''testConnection'' [profile]))
     else
       Inr (Rejected (''Unknown command: '' @ command
                      @ ''. Type "commands" to see available commands.'')))\<close>

text \<open>
  The head of the \<^verbatim>\<open>try\<close> block: the arguments are parsed (an empty or blank
  \<open>arg\<close> stands for \<^verbatim>\<open>{}\<close>), profile and format are chosen, and the switch runs.
\<close>

definition parse_args :: "runtime \<Rightarrow> string \<Rightarrow> js_error + jsval" where
  "parse_args rt arg = (if arg \<noteq> [] \<and> trim arg \<noteq> [] then JSON_parse rt arg else Inr (JObject []))"

definition dispatch_args :: "cli_state \<Rightarrow> string \<Rightarrow> jsval \<Rightarrow> js_error + dispatch" where
  "dispatch_args st command args =
     bindE (get_prop args ''profile'') (\<lambda>p.
     bindE (get_prop args ''format'') (\<lambda>f.
       switch_command command (js_or p (currentProfile st)) (js_or f (currentFormat st)) args))"

text \<open>
  How the \<^verbatim>\<open>try\<close> block ends: with a \<^verbatim>\<open>return\<close> from inside the switch, by
  reaching its end, or with an exception.
\<close>

datatype completion = Returned | Completed | Raised js_error

definition display :: "ApiResult \<Rightarrow> event" where
  \<open>display result =
     (case result of
        Success text \<Rightarrow> Console_log [''\<newline>'' @ text]
      | Failure error \<Rightarrow> Console_error [''\<newline>'' @ error])\<close>

definition try_block :: "runtime \<Rightarrow> cli_state \<Rightarrow> string \<Rightarrow> string \<Rightarrow> event list \<times> completion" where
  "try_block rt st command arg =
     (case bindE (parse_args rt arg) (dispatch_args st command) of
        Inl e \<Rightarrow> ([], Raised e)
      | Inr (Rejected message) \<Rightarrow> ([Console_error [message], Prompt], Returned)
      | Inr (Call c) \<Rightarrow>
          (case api rt c of
             Inl e \<Rightarrow> ([Invoke c], Raised e)
           | Inr result \<Rightarrow> ([Invoke c, display result], Completed)))"

definition runCommand :: "runtime \<Rightarrow> cli_state \<Rightarrow> string \<Rightarrow> string \<Rightarrow> event list" where
  "runCommand rt st command arg =
     (if cli_config st = None \<or> \<not> truthy (currentProfile st)
      then [Console_log [''Configuration not loaded!''], Prompt]
      else
        case try_block rt st command arg of
          (events, Returned) \<Rightarrow> events
        | (events, Completed) \<Rightarrow> events @ [Prompt]
        | (events, Raised error) \<Rightarrow>
            events @ [Console_error [''Error running command:'', errorMessage error], Prompt])"

text \<open>The remote calls in a trace.\<close>

fun invoked :: "event list \<Rightarrow> api_call list" where
  "invoked [] = []"
| "invoked (Invoke c # es) = c # invoked es"
| "invoked (e # es) = invoked es"

section \<open>The command catalog of the specification\<close>

text \<open>
  The table of section 4.3 of the specification, in its words: the thirteen commands and
  the parameters each requires. The dispatcher above is compared with it.
\<close>

definition spec_catalog :: "(string \<times> string list) list" where
  "spec_catalog =
     [(''list-project-events'', [''projectSlug'']),
      (''list-project-issues'', [''projectSlug'']),
      (''list-org-issues'', []),
      (''get-issue'', [''issueId'']),
      (''update-issue'', [''issueId'']),
      (''list-issue-events'', [''issueId'']),
      (''get-event'', [''projectSlug'', ''eventId'']),
      (''get-issue-event'', [''issueId'', ''eventId'']),
      (''get-tag-details'', [''issueId'', ''tagKey'']),
      (''list-tag-values'', [''issueId'', ''tagKey'']),
      (''list-issue-hashes'', [''issueId'']),
      (''debug-source-maps'', [''projectSlug'', ''eventId'']),
      (''test-connection'', [])]"

text \<open>
  The message of the specification for a list of required parameters: one is named
  alone, several are joined with "and".
\<close>

fun spec_required_message :: "string list \<Rightarrow> string" where
  \<open>spec_required_message [p] = ''ERROR: "'' @ p @ ''" parameter is required''\<close>
| \<open>spec_required_message ps =
     ''ERROR: '' @ join '' and '' (map (\<lambda>p. ''"'' @ p @ ''"'') ps) @ '' parameters are required''\<close>

section \<open>Client registry\<close>

text \<open>
  Modelled from the spec: the registry (\<^verbatim>\<open>SentryUtil\<close> in \<^verbatim>\<open>utils/sentry-utils.ts\<close>,
  and \<^verbatim>\<open>clearClients\<close> of \<^verbatim>\<open>utils/sentry-client.ts\<close>) is not among the sources; only
  its tests are. Section 4.2 of the specification: on the first call for a profile name
  \<open>getClient\<close> loads the configuration, resolves the options of the profile, constructs
  a client bound to them, stores it under the name and returns it; on a later call it
  returns the stored handle; an error of loading or resolving propagates and is not
  cached. \<open>clearAll\<close> empties the registry.

  A handle is a JavaScript object, and two handles are the same when they are the same
  object: \<open>client_id\<close> is the number of the construction that made it.
\<close>

record client =
  client_id :: nat
  client_options :: SentryClientOptions

record registry =
  clients :: "string \<rightharpoonup> client"
  constructed :: nat



definition clearAll :: "registry \<Rightarrow> registry" where
  "clearAll reg = reg\<lparr>clients := Map.empty\<rparr>"

text \<open>Every stored handle was made by an earlier construction.\<close>

definition registry_ok :: "registry \<Rightarrow> bool" where
  "registry_ok reg = (\<forall>c \<in> ran (clients reg). client_id c < constructed reg)"

section \<open>The operations\<close>

text \<open>
  Modelled from the spec: the thirteen operations (\<^verbatim>\<open>utils/sentry-client.ts\<close> and the
  class \<^verbatim>\<open>SentryUtil\<close> of \<^verbatim>\<open>utils/sentry-utils.ts\<close>) are not among the sources.
  Section 4.3 of the specification: an operation "resolves the client via 4.2, performs
  the remote call, and on success renders the payload via 4.4 into
  \<^verbatim>\<open>{success:true, result}\<close>; on any exception from the transport layer (network
  failure, non-2xx response, timeout) catches it and returns \<^verbatim>\<open>{success:false, error:
  <human-readable message derived from the exception>}\<close>". Section 4.4: a failure of the
  formatter is "caught by the Dispatcher's uniform catch and folded into an
  \<^verbatim>\<open>ApiResult\<close> failure". Section 4.2: \<open>getClient\<close> "propagates any error raised
  during configuration loading or profile resolution".

  \<open>resolve\<close> is \<open>getClient\<close> for the profile of the call, \<open>remote\<close> the request to
  the remote API, and \<open>render\<close> the formatter for the format of the call.
\<close>

record backend =
  resolve :: "api_call \<Rightarrow> js_error + client"
  remote :: "client \<Rightarrow> api_call \<Rightarrow> js_error + jsval"
  render :: "api_call \<Rightarrow> jsval \<Rightarrow> js_error + string"

definition spec_operation :: "backend \<Rightarrow> api_call \<Rightarrow> js_error + ApiResult" where
  "spec_operation b call =
     bindE (resolve b call) (\<lambda>cl.
       Inr (case bindE (remote b cl call) (render b call) of
              Inl e \<Rightarrow> Failure (errorMessage e)
            | Inr text \<Rightarrow> Success text))"

section \<open>Example environments\<close>

text \<open>
  Three project roots, each with a configuration document, and the values that
  \<^verbatim>\<open>yaml.parse\<close> gives for their front matter. \<open>/empty\<close> declares no profile,
  \<open>/blank\<close> sets \<^verbatim>\<open>defaultProfile\<close> to the empty string, and in \<open>/falsy\<close> the
  \<^verbatim>\<open>authToken\<close> of the profile is the empty string.
\<close>

definition example_files :: "(string \<times> string) list" where
  \<open>example_files =
     [(''/empty/.claude/sentry-config.local.md'',
       ''---\<newline>profiles: {}\<newline>---\<newline>''),
      (''/blank/.claude/sentry-config.local.md'',
       ''---\<newline>profiles:\<newline>  first:\<newline>    authToken: FIRST_TOKEN\<newline>''
       @ ''    organization: first-org\<newline>defaultProfile: ""\<newline>---\<newline>''),
      (''/falsy/.claude/sentry-config.local.md'',
       ''---\<newline>profiles:\<newline>  test:\<newline>    authToken: ""\<newline>''
       @ ''    organization: test-org\<newline>---\<newline>'')]\<close>

definition example_yaml :: "(string \<times> jsval) list" where
  \<open>example_yaml =
     [(''profiles: {}'', JObject [(''profiles'', JObject [])]),
      (''profiles:\<newline>  first:\<newline>    authToken: FIRST_TOKEN\<newline>''
       @ ''    organization: first-org\<newline>defaultProfile: ""'',
       JObject [(''profiles'',
                 JObject [(''first'', JObject [(''authToken'', JString ''FIRST_TOKEN''),
                                              (''organization'', JString ''first-org'')])]),
                (''defaultProfile'', JString [])]),
      (''profiles:\<newline>  test:\<newline>    authToken: ""\<newline>''
       @ ''    organization: test-org'',
       JObject [(''profiles'',
                 JObject [(''test'', JObject [(''authToken'', JString []),
                                             (''organization'', JString ''test-org'')])])])]\<close>

definition example_host :: host where
  \<open>example_host =
     \<lparr>path_join = join ''/'',
      existsSync = (\<lambda>path. map_of example_files path \<noteq> None),
      readFileSync = (\<lambda>path. case map_of example_files path of
                                None \<Rightarrow> Inl (Error ''ENOENT: no such file or directory'')
                              | Some content \<Rightarrow> Inr content),
      yaml_parse = (\<lambda>text. case map_of example_yaml text of
                              None \<Rightarrow> Inl (Error ''YAMLParseError'')
                            | Some v \<Rightarrow> Inr v)\<rparr>\<close>

text \<open>The configuration of the tests, and a REPL session that has loaded it.\<close>

definition example_config :: Config where
  \<open>example_config =
     \<lparr>profiles =
        JObject [(''production'', JObject [(''authToken'', JString ''PROD_TOKEN''),
                                          (''organization'', JString ''prod-org'')]),
                 (''staging'', JObject [(''authToken'', JString ''STAGING_TOKEN''),
                                       (''organization'', JString ''staging-org''),
                                       (''baseUrl'', JString ''https://staging.sentry.io/api/0'')])],
      defaultProfile = JString ''production'',
      defaultFormat = JString ''json''\<rparr>\<close>

definition example_state :: cli_state where
  \<open>example_state =
     \<lparr>cli_config = Some example_config,
      currentProfile = JString ''production'',
      currentFormat = JString ''json''\<rparr>\<close>

text \<open>A run time whose remote calls all fail with a network error.\<close>

definition example_runtime :: runtime where
  \<open>example_runtime =
     \<lparr>JSON_parse = (\<lambda>text.
        if text = ''{"issueId":"1"}'' then Inr (JObject [(''issueId'', JString ''1'')])
        else if text = ''{"issueId":""}'' then Inr (JObject [(''issueId'', JString [])])
        else if text = ''{}'' then Inr (JObject [])
        else Inl (Error ''Unexpected token'')),
      api = (\<lambda>call. Inl (Error ''Network Error''))\<rparr>\<close>

text \<open>
  A backend whose client resolves and whose remote API answers every request with
  status 401.
\<close>

definition example_backend :: backend where
  \<open>example_backend =
     \<lparr>resolve = (\<lambda>call. Inr \<lparr>client_id = 0,
                               client_options =
                                 \<lparr>authToken = JString ''PROD_TOKEN'',
                                  organization = JString ''prod-org'',
                                  baseUrl = JString ''https://sentry.io/api/0''\<rparr>\<rparr>),
      remote = (\<lambda>cl call. Inl (Error ''Request failed with status code 401'')),
      render = (\<lambda>call payload. Inr ''{}'')\<rparr>\<close>






section \<open>The data model of the specification\<close>

text \<open>
  Section 3 of the specification, in its words: the base URL of a profile "must, when
  present, begin with \<^verbatim>\<open>http://\<close> or \<^verbatim>\<open>https://\<close>".
\<close>

fun spec_valid_baseUrl :: "jsval \<Rightarrow> bool" where
  "spec_valid_baseUrl (JString s) = (prefix ''http://'' s \<or> prefix ''https://'' s)"
| "spec_valid_baseUrl v = False"


section \<open>Properties of the dispatcher\<close>

lemma get_prop_object_total: \<open>\<exists>w. get_prop (JObject kvs) k = Inr w\<close>
  by simp

lemma get_prop_total:
  \<open>args \<noteq> JUndefined \<Longrightarrow> args \<noteq> JNull \<Longrightarrow> \<exists>w. get_prop args k = Inr w\<close>
  by (cases args) simp_all

lemma get_prop_absent:
  \<open>map_of kvs k = None \<Longrightarrow> k \<notin> set object_prototype_names \<Longrightarrow>
   get_prop (JObject kvs) k = Inr JUndefined\<close>
  by simp

lemma require1_falsy:
  \<open>get_prop args p = Inr v \<Longrightarrow> \<not> truthy v \<Longrightarrow> require1 args p m call = Inr (Rejected m)\<close>
  by (simp add: require1_def bindE_def)

lemma require2_falsy:
  assumes \<open>get_prop (JObject kvs) r = Inr v\<close> and \<open>\<not> truthy v\<close> and \<open>r = p \<or> r = q\<close>
  shows \<open>require2 (JObject kvs) p q m call = Inr (Rejected m)\<close>
proof -
  obtain w where w: \<open>get_prop (JObject kvs) p = Inr w\<close>
    using get_prop_object_total by blast
  show ?thesis
  proof (cases \<open>truthy w\<close>)
    case False
    with w show ?thesis by (simp add: require2_def bindE_def del: get_prop.simps)
  next
    case True
    with w assms have \<open>r = q\<close> by auto
    with w True assms show ?thesis by (simp add: require2_def bindE_def del: get_prop.simps)
  qed
qed

text \<open>The switch, one case at a time.\<close>

lemma switch_one_parameter:
  \<open>switch_command ''list-project-events'' profile format args =
     require1 args ''projectSlug'' ''ERROR: "projectSlug" parameter is required''
       (\<lambda>projectSlug. ApiCall ''listProjectEvents'' [profile, projectSlug, args, format])\<close>
  \<open>switch_command ''list-project-issues'' profile format args =
     require1 args ''projectSlug'' ''ERROR: "projectSlug" parameter is required''
       (\<lambda>projectSlug. ApiCall ''listProjectIssues'' [profile, projectSlug, args, format])\<close>
  \<open>switch_command ''get-issue'' profile format args =
     require1 args ''issueId'' ''ERROR: "issueId" parameter is required''
       (\<lambda>issueId. ApiCall ''getIssue'' [profile, issueId, format])\<close>
  \<open>switch_command ''update-issue'' profile format args =
     require1 args ''issueId'' ''ERROR: "issueId" parameter is required''
       (\<lambda>issueId. ApiCall ''updateIssue'' [profile, issueId, args])\<close>
  \<open>switch_command ''list-issue-events'' profile format args =
     require1 args ''issueId'' ''ERROR: "issueId" parameter is required''
       (\<lambda>issueId. ApiCall ''listIssueEvents'' [profile, issueId, args, format])\<close>
  \<open>switch_command ''list-issue-hashes'' profile format args =
     require1 args ''issueId'' ''ERROR: "issueId" parameter is required''
       (\<lambda>issueId. ApiCall ''listIssueHashes'' [profile, issueId, format])\<close>
  by (simp_all add: switch_command_def)

lemma switch_two_parameters:
  \<open>switch_command ''get-event'' profile format args =
     require2 args ''projectSlug'' ''eventId''
       ''ERROR: "projectSlug" and "eventId" parameters are required''
       (\<lambda>projectSlug eventId. ApiCall ''getEvent'' [profile, projectSlug, eventId, format])\<close>
  \<open>switch_command ''get-issue-event'' profile format args =
     require2 args ''issueId'' ''eventId''
       ''ERROR: "issueId" and "eventId" parameters are required''
       (\<lambda>issueId eventId. ApiCall ''getIssueEvent'' [profile, issueId, eventId, format])\<close>
  \<open>switch_command ''get-tag-details'' profile format args =
     require2 args ''issueId'' ''tagKey''
       ''ERROR: "issueId" and "tagKey" parameters are required''
       (\<lambda>issueId tagKey. ApiCall ''getTagDetails'' [profile, issueId, tagKey, args, format])\<close>
  \<open>switch_command ''list-tag-values'' profile format args =
     require2 args ''issueId'' ''tagKey''
       ''ERROR: "issueId" and "tagKey" parameters are required''
       (\<lambda>issueId tagKey. ApiCall ''listTagValues'' [profile, issueId, tagKey, args, format])\<close>
  \<open>switch_command ''debug-source-maps'' profile format args =
     require2 args ''projectSlug'' ''eventId''
       ''ERROR: "projectSlug" and "eventId" parameters are required''
       (\<lambda>projectSlug eventId.
          ApiCall ''debugSourceMaps'' [profile, projectSlug, eventId, args, format])\<close>
  by (simp_all add: switch_command_def)

lemma switch_no_parameter:
  \<open>switch_command ''list-org-issues'' profile format args =
     Inr (Call (ApiCall ''listOrgIssues'' [profile, args, format]))\<close>
  \<open>switch_command ''test-connection'' profile format args =
     Inr (Call (ApiCall ''testConnection'' [profile]))\<close>
  by (simp_all add: switch_command_def)


lemma spec_catalog_names:
  \<open>map fst spec_catalog =
     [''list-project-events'', ''list-project-issues'', ''list-org-issues'', ''get-issue'',
      ''update-issue'', ''list-issue-events'', ''get-event'', ''get-issue-event'',
      ''get-tag-details'', ''list-tag-values'', ''list-issue-hashes'', ''debug-source-maps'',
      ''test-connection'']\<close>
  by (simp add: spec_catalog_def)

lemma switch_unknown:
  assumes \<open>command \<notin> set (map fst spec_catalog)\<close>
  shows \<open>switch_command command profile format args =
     Inr (Rejected (''Unknown command: '' @ command
                    @ ''. Type "commands" to see available commands.''))\<close>
proof -
  from assms have
    \<open>command \<noteq> ''list-project-events''\<close> \<open>command \<noteq> ''list-project-issues''\<close>
    \<open>command \<noteq> ''list-org-issues''\<close> \<open>command \<noteq> ''get-issue''\<close>
    \<open>command \<noteq> ''update-issue''\<close> \<open>command \<noteq> ''list-issue-events''\<close>
    \<open>command \<noteq> ''get-event''\<close> \<open>command \<noteq> ''get-issue-event''\<close>
    \<open>command \<noteq> ''get-tag-details''\<close> \<open>command \<noteq> ''list-tag-values''\<close>
    \<open>command \<noteq> ''list-issue-hashes''\<close> \<open>command \<noteq> ''debug-source-maps''\<close>
    \<open>command \<noteq> ''test-connection''\<close>
    unfolding spec_catalog_names by simp_all
  then show ?thesis
    unfolding switch_command_def by (simp only: if_False)
qed

text \<open>The catalog of the specification, entry by entry.\<close>

lemma spec_catalog_cases:
  assumes \<open>(c, req) \<in> set spec_catalog\<close>
  obtains
    \<open>c = ''list-project-events''\<close> \<open>req = [''projectSlug'']\<close>
  | \<open>c = ''list-project-issues''\<close> \<open>req = [''projectSlug'']\<close>
  | \<open>c = ''list-org-issues''\<close> \<open>req = []\<close>
  | \<open>c = ''get-issue''\<close> \<open>req = [''issueId'']\<close>
  | \<open>c = ''update-issue''\<close> \<open>req = [''issueId'']\<close>
  | \<open>c = ''list-issue-events''\<close> \<open>req = [''issueId'']\<close>
  | \<open>c = ''get-event''\<close> \<open>req = [''projectSlug'', ''eventId'']\<close>
  | \<open>c = ''get-issue-event''\<close> \<open>req = [''issueId'', ''eventId'']\<close>
  | \<open>c = ''get-tag-details''\<close> \<open>req = [''issueId'', ''tagKey'']\<close>
  | \<open>c = ''list-tag-values''\<close> \<open>req = [''issueId'', ''tagKey'']\<close>
  | \<open>c = ''list-issue-hashes''\<close> \<open>req = [''issueId'']\<close>
  | \<open>c = ''debug-source-maps''\<close> \<open>req = [''projectSlug'', ''eventId'']\<close>
  | \<open>c = ''test-connection''\<close> \<open>req = []\<close>
  using assms unfolding spec_catalog_def
  by (simp only: list.set insert_iff empty_iff prod.inject simp_thms)
     (elim disjE conjE; (rule that; assumption))

text \<open>
  A required parameter whose value is falsy (absent, which reads as \<^verbatim>\<open>undefined\<close>,
  or present with a falsy value) makes the switch reject the command with the message of
  the specification.
\<close>

lemma required_rejected:
  assumes \<open>(c, req) \<in> set spec_catalog\<close> and \<open>p \<in> set req\<close>
    and \<open>get_prop (JObject kvs) p = Inr v\<close> and \<open>\<not> truthy v\<close>
  shows \<open>switch_command c profile format (JObject kvs) = Inr (Rejected (spec_required_message req))\<close>
  using assms(1)
proof (cases rule: spec_catalog_cases)
  case 1
  with assms show ?thesis by (simp add: switch_one_parameter require1_falsy del: get_prop.simps)
next
  case 2
  with assms show ?thesis by (simp add: switch_one_parameter require1_falsy del: get_prop.simps)
next
  case 3
  with assms show ?thesis by simp
next
  case 4
  with assms show ?thesis by (simp add: switch_one_parameter require1_falsy del: get_prop.simps)
next
  case 5
  with assms show ?thesis by (simp add: switch_one_parameter require1_falsy del: get_prop.simps)
next
  case 6
  with assms show ?thesis by (simp add: switch_one_parameter require1_falsy del: get_prop.simps)
next
  case 7
  with assms have \<open>p = ''projectSlug'' \<or> p = ''eventId''\<close> by simp
  with 7 assms(3,4) show ?thesis
    by (simp add: switch_two_parameters require2_falsy [where r = p] del: get_prop.simps)
next
  case 8
  with assms have \<open>p = ''issueId'' \<or> p = ''eventId''\<close> by simp
  with 8 assms(3,4) show ?thesis
    by (simp add: switch_two_parameters require2_falsy [where r = p] del: get_prop.simps)
next
  case 9
  with assms have \<open>p = ''issueId'' \<or> p = ''tagKey''\<close> by simp
  with 9 assms(3,4) show ?thesis
    by (simp add: switch_two_parameters require2_falsy [where r = p] del: get_prop.simps)
next
  case 10
  with assms have \<open>p = ''issueId'' \<or> p = ''tagKey''\<close> by simp
  with 10 assms(3,4) show ?thesis
    by (simp add: switch_two_parameters require2_falsy [where r = p] del: get_prop.simps)
next
  case 11
  with assms show ?thesis by (simp add: switch_one_parameter require1_falsy del: get_prop.simps)
next
  case 12
  with assms have \<open>p = ''projectSlug'' \<or> p = ''eventId''\<close> by simp
  with 12 assms(3,4) show ?thesis
    by (simp add: switch_two_parameters require2_falsy [where r = p] del: get_prop.simps)
next
  case 13
  with assms show ?thesis by simp
qed


lemma spec_parameters_not_inherited:
  assumes \<open>(c, req) \<in> set spec_catalog\<close> and \<open>p \<in> set req\<close>
  shows \<open>p \<notin> set object_prototype_names\<close>
  using assms(1)
proof (cases rule: spec_catalog_cases)
qed (use assms(2) in \<open>auto simp: object_prototype_names_def\<close>)

lemma dispatch_args_switch:
  assumes \<open>args \<noteq> JUndefined\<close> and \<open>args \<noteq> JNull\<close>
  shows \<open>\<exists>profile format. dispatch_args st c args = switch_command c profile format args\<close>
proof -
  obtain p where p: \<open>get_prop args ''profile'' = Inr p\<close>
    using get_prop_total [OF assms] by blast
  obtain f where f: \<open>get_prop args ''format'' = Inr f\<close>
    using get_prop_total [OF assms] by blast
  show ?thesis
    unfolding dispatch_args_def by (simp only: p f bindE_def sum.case) blast
qed

lemma runCommand_rejected:
  assumes \<open>cli_config st \<noteq> None\<close> and \<open>truthy (currentProfile st)\<close>
    and \<open>parse_args rt arg = Inr args\<close>
    and \<open>dispatch_args st c args = Inr (Rejected m)\<close>
  shows \<open>runCommand rt st c arg = [Console_error [m], Prompt]\<close>
  using assms by (simp add: runCommand_def try_block_def bindE_def)

lemma runCommand_falsy_parameter:
  assumes \<open>(c, req) \<in> set spec_catalog\<close> and \<open>p \<in> set req\<close>
    and \<open>get_prop (JObject kvs) p = Inr v\<close> and \<open>\<not> truthy v\<close>
    and \<open>cli_config st \<noteq> None\<close> and \<open>truthy (currentProfile st)\<close>
    and \<open>parse_args rt arg = Inr (JObject kvs)\<close>
  shows \<open>runCommand rt st c arg = [Console_error [spec_required_message req], Prompt]\<close>
proof -
  obtain profile format
    where \<open>dispatch_args st c (JObject kvs) = switch_command c profile format (JObject kvs)\<close>
    using dispatch_args_switch [of \<open>JObject kvs\<close>] by blast
  then have \<open>dispatch_args st c (JObject kvs) = Inr (Rejected (spec_required_message req))\<close>
    using required_rejected [OF assms(1-4)] by simp
  with assms(5-7) show ?thesis by (rule runCommand_rejected)
qed

text \<open>
  C2. For every command of the catalog and every parameter object that omits one of the
  parameters the command requires, the dispatcher fails without throwing: it reports
  exactly the message of the specification (\<^verbatim>\<open>ERROR: "p" parameter is required\<close> for
  one required parameter, both names joined with "and" for two) and returns to the
  prompt, and no remote call is made. The dispatcher acts on a loaded configuration.
\<close>

theorem required_parameter_omitted:
  assumes \<open>(c, req) \<in> set spec_catalog\<close> and \<open>p \<in> set req\<close>
    and \<open>map_of kvs p = None\<close>
    and \<open>cli_config st \<noteq> None\<close> and \<open>truthy (currentProfile st)\<close>
    and \<open>parse_args rt arg = Inr (JObject kvs)\<close>
  shows \<open>runCommand rt st c arg = [Console_error [spec_required_message req], Prompt]
         \<and> invoked (runCommand rt st c arg) = []\<close>
proof -
  have \<open>get_prop (JObject kvs) p = Inr JUndefined\<close>
    using spec_parameters_not_inherited [OF assms(1,2)] assms(3) by (rule_tac get_prop_absent)
  then have \<open>runCommand rt st c arg = [Console_error [spec_required_message req], Prompt]\<close>
    using assms by (intro runCommand_falsy_parameter [where p = p and v = JUndefined]) simp_all
  then show ?thesis by simp
qed

theorem required_parameter_omitted_witness:
  \<open>(''get-event'', [''projectSlug'', ''eventId'']) \<in> set spec_catalog
   \<and> ''eventId'' \<in> set [''projectSlug'', ''eventId'']
   \<and> map_of [(''projectSlug'', JString ''web'')] ''eventId'' = None
   \<and> cli_config example_state \<noteq> None \<and> truthy (currentProfile example_state)
   \<and> parse_args (example_runtime\<lparr>JSON_parse := \<lambda>text. Inr (JObject [(''projectSlug'', JString ''web'')])\<rparr>)
         ''{"projectSlug":"web"}'' = Inr (JObject [(''projectSlug'', JString ''web'')])
   \<and> runCommand (example_runtime\<lparr>JSON_parse := \<lambda>text. Inr (JObject [(''projectSlug'', JString ''web'')])\<rparr>)
         example_state ''get-event'' ''{"projectSlug":"web"}''
       = [Console_error [''ERROR: "projectSlug" and "eventId" parameters are required''], Prompt]\<close>
proof -
  let ?rt = \<open>example_runtime\<lparr>JSON_parse := \<lambda>text. Inr (JObject [(''projectSlug'', JString ''web'')])\<rparr>\<close>
  have h1: \<open>(''get-event'', [''projectSlug'', ''eventId'']) \<in> set spec_catalog\<close>
    by (simp add: spec_catalog_def)
  have h2: \<open>''eventId'' \<in> set [''projectSlug'', ''eventId'']\<close> by simp
  have h3: \<open>map_of [(''projectSlug'', JString ''web'')] ''eventId'' = None\<close> by simp
  have h4: \<open>cli_config example_state \<noteq> None\<close> by (simp add: example_state_def)
  have h5: \<open>truthy (currentProfile example_state)\<close> by (simp add: example_state_def)
  have h6: \<open>parse_args ?rt ''{"projectSlug":"web"}'' = Inr (JObject [(''projectSlug'', JString ''web'')])\<close>
    by (simp add: parse_args_def trim_def js_whitespace_def)
  from required_parameter_omitted [OF h1 h2 h3 h4 h5 h6] h1 h2 h3 h4 h5 h6
  show ?thesis by simp
qed

text \<open>
  C4, as the code has it. For every command name outside the catalog and every argument
  that parses to a value other than \<^verbatim>\<open>null\<close>, the dispatcher of the REPL reports
  \<^verbatim>\<open>Unknown command: <name>\<close> followed by the hint
  \<^verbatim>\<open>. Type "commands" to see available commands.\<close> and returns to the prompt; no
  remote call is made, and so no client is created.
\<close>

theorem unknown_command_rejected:
  assumes \<open>c \<notin> set (map fst spec_catalog)\<close>
    and \<open>cli_config st \<noteq> None\<close> and \<open>truthy (currentProfile st)\<close>
    and \<open>parse_args rt arg = Inr args\<close> and \<open>args \<noteq> JUndefined\<close> and \<open>args \<noteq> JNull\<close>
  shows \<open>runCommand rt st c arg =
           [Console_error [''Unknown command: '' @ c
                           @ ''. Type "commands" to see available commands.''], Prompt]
         \<and> invoked (runCommand rt st c arg) = []\<close>
proof -
  obtain profile format
    where \<open>dispatch_args st c args = switch_command c profile format args\<close>
    using dispatch_args_switch [OF assms(5,6)] by blast
  then have \<open>dispatch_args st c args =
      Inr (Rejected (''Unknown command: '' @ c @ ''. Type "commands" to see available commands.''))\<close>
    using switch_unknown [OF assms(1)] by simp
  with assms(2-4) have \<open>runCommand rt st c arg =
      [Console_error [''Unknown command: '' @ c
                      @ ''. Type "commands" to see available commands.''], Prompt]\<close>
    by (rule runCommand_rejected)
  then show ?thesis by simp
qed

theorem unknown_command_rejected_witness:
  \<open>''unknown-cmd'' \<notin> set (map fst spec_catalog)
   \<and> cli_config example_state \<noteq> None \<and> truthy (currentProfile example_state)
   \<and> parse_args example_runtime [] = Inr (JObject [])
   \<and> JObject [] \<noteq> JUndefined \<and> JObject [] \<noteq> JNull
   \<and> runCommand example_runtime example_state ''unknown-cmd'' [] =
        [Console_error [''Unknown command: unknown-cmd. Type "commands" to see available commands.''],
         Prompt]
   \<and> invoked (runCommand example_runtime example_state ''unknown-cmd'' []) = []\<close>
proof -
  have h1: \<open>''unknown-cmd'' \<notin> set (map fst spec_catalog)\<close>
    by (simp add: spec_catalog_names)
  have h2: \<open>cli_config example_state \<noteq> None\<close> by (simp add: example_state_def)
  have h3: \<open>truthy (currentProfile example_state)\<close> by (simp add: example_state_def)
  have h4: \<open>parse_args example_runtime [] = Inr (JObject [])\<close> by (simp add: parse_args_def)
  have h5: \<open>JObject [] \<noteq> JUndefined\<close> and h6: \<open>JObject [] \<noteq> JNull\<close> by simp_all
  from unknown_command_rejected [OF h1 h2 h3 h4 h5 h6] h1 h2 h3 h4
  show ?thesis by simp
qed

text \<open>
  C4, as stated, fails on the dispatcher of the REPL: for \<^verbatim>\<open>unknown-cmd\<close> the reported
  string is not \<^verbatim>\<open>Unknown command: unknown-cmd\<close>.
\<close>

theorem unknown_command_message_counterexample:
  \<open>runCommand example_runtime example_state ''unknown-cmd'' []
     \<noteq> [Console_error [''Unknown command: '' @ ''unknown-cmd''], Prompt]\<close>
  by (simp add: runCommand_def try_block_def parse_args_def dispatch_args_def bindE_def
      switch_command_def example_state_def js_or_def)

text \<open>
  C3. Whatever a dispatched call does, the dispatcher returns to the prompt and no
  exception leaves it: an exception that leaves the call is reported with the message of
  the exception, and a returned \<^verbatim>\<open>ApiResult\<close> is reported by its result or its error.
  The message of an exception is the text it carries (\<^verbatim>\<open>error.message\<close>, or the image
  under \<^verbatim>\<open>String\<close> of a value that is not an \<^verbatim>\<open>Error\<close>).
  With the operations of the specification behind the dispatcher, whenever the client
  resolves the outcome of the call is an \<^verbatim>\<open>ApiResult\<close>: when the remote call throws, or
  the formatter does, it is \<^verbatim>\<open>{success: false, error}\<close> with the message of that
  exception, which the dispatcher reports as a failure; otherwise it is
  \<^verbatim>\<open>{success: true, result}\<close> with the rendered payload.
\<close>

theorem remote_exception_is_reported:
  assumes \<open>cli_config st \<noteq> None\<close> and \<open>truthy (currentProfile st)\<close>
    and \<open>bindE (parse_args rt arg) (dispatch_args st c) = Inr (Call call)\<close>
  shows \<open>runCommand rt st c arg =
           Invoke call #
           (case api rt call of
              Inl e \<Rightarrow> [Console_error [''Error running command:'', errorMessage e], Prompt]
            | Inr (Success text) \<Rightarrow> [Console_log [''\<newline>'' @ text], Prompt]
            | Inr (Failure error) \<Rightarrow> [Console_error [''\<newline>'' @ error], Prompt])
         \<and> errorMessage (Error m) = m \<and> errorMessage (TypeError m) = m
         \<and> errorMessage (Thrown s) = s
         \<and> (api rt = spec_operation b \<and> resolve b call = Inr cl \<longrightarrow>
              api rt call =
                Inr (case remote b cl call of
                       Inl e \<Rightarrow> Failure (errorMessage e)
                     | Inr payload \<Rightarrow>
                         (case render b call payload of
                            Inl e \<Rightarrow> Failure (errorMessage e)
                          | Inr text \<Rightarrow> Success text))
              \<and> runCommand rt st c arg =
                  [Invoke call,
                   (case remote b cl call of
                      Inl e \<Rightarrow> Console_error [''\<newline>'' @ errorMessage e]
                    | Inr payload \<Rightarrow>
                        (case render b call payload of
                           Inl e \<Rightarrow> Console_error [''\<newline>'' @ errorMessage e]
                         | Inr text \<Rightarrow> Console_log [''\<newline>'' @ text])),
                   Prompt])\<close>
proof (intro conjI impI)
  show run: \<open>runCommand rt st c arg =
           Invoke call #
           (case api rt call of
              Inl e \<Rightarrow> [Console_error [''Error running command:'', errorMessage e], Prompt]
            | Inr (Success text) \<Rightarrow> [Console_log [''\<newline>'' @ text], Prompt]
            | Inr (Failure error) \<Rightarrow> [Console_error [''\<newline>'' @ error], Prompt])\<close>
    using assms
    by (simp add: runCommand_def try_block_def display_def split: sum.splits ApiResult.splits)
  show \<open>errorMessage (Error m) = m\<close> and \<open>errorMessage (TypeError m) = m\<close>
    and \<open>errorMessage (Thrown s) = s\<close>
    by simp_all
  assume spec: \<open>api rt = spec_operation b \<and> resolve b call = Inr cl\<close>
  then show outcome: \<open>api rt call =
                Inr (case remote b cl call of
                       Inl e \<Rightarrow> Failure (errorMessage e)
                     | Inr payload \<Rightarrow>
                         (case render b call payload of
                            Inl e \<Rightarrow> Failure (errorMessage e)
                          | Inr text \<Rightarrow> Success text))\<close>
    by (simp add: spec_operation_def bindE_def split: sum.splits)
  show \<open>runCommand rt st c arg =
                  [Invoke call,
                   (case remote b cl call of
                      Inl e \<Rightarrow> Console_error [''\<newline>'' @ errorMessage e]
                    | Inr payload \<Rightarrow>
                        (case render b call payload of
                           Inl e \<Rightarrow> Console_error [''\<newline>'' @ errorMessage e]
                         | Inr text \<Rightarrow> Console_log [''\<newline>'' @ text])),
                   Prompt]\<close>
    unfolding run outcome by (simp split: sum.splits)
qed

theorem remote_exception_is_reported_witness:
  \<open>cli_config example_state \<noteq> None \<and> truthy (currentProfile example_state)
   \<and> bindE (parse_args (example_runtime\<lparr>api := spec_operation example_backend\<rparr>) ''{"issueId":"1"}'')
        (dispatch_args example_state ''get-issue'')
       = Inr (Call (ApiCall ''getIssue'' [JString ''production'', JString ''1'', JString ''json'']))
   \<and> api (example_runtime\<lparr>api := spec_operation example_backend\<rparr>) = spec_operation example_backend
   \<and> remote example_backend
        \<lparr>client_id = 0,
         client_options = \<lparr>authToken = JString ''PROD_TOKEN'', organization = JString ''prod-org'',
                            baseUrl = JString ''https://sentry.io/api/0''\<rparr>\<rparr>
        (ApiCall ''getIssue'' [JString ''production'', JString ''1'', JString ''json''])
       = Inl (Error ''Request failed with status code 401'')
   \<and> api (example_runtime\<lparr>api := spec_operation example_backend\<rparr>)
        (ApiCall ''getIssue'' [JString ''production'', JString ''1'', JString ''json''])
       = Inr (Failure ''Request failed with status code 401'')
   \<and> runCommand (example_runtime\<lparr>api := spec_operation example_backend\<rparr>) example_state
        ''get-issue'' ''{"issueId":"1"}'' =
       [Invoke (ApiCall ''getIssue'' [JString ''production'', JString ''1'', JString ''json'']),
        Console_error [''\<newline>Request failed with status code 401''], Prompt]\<close>
proof -
  let ?rt = \<open>example_runtime\<lparr>api := spec_operation example_backend\<rparr>\<close>
  let ?call = \<open>ApiCall ''getIssue'' [JString ''production'', JString ''1'', JString ''json'']\<close>
  let ?cl = \<open>\<lparr>client_id = 0,
         client_options = \<lparr>authToken = JString ''PROD_TOKEN'', organization = JString ''prod-org'',
                            baseUrl = JString ''https://sentry.io/api/0''\<rparr>\<rparr>\<close>
  have h1: \<open>cli_config example_state \<noteq> None\<close> by (simp add: example_state_def)
  have h2: \<open>truthy (currentProfile example_state)\<close> by (simp add: example_state_def)
  have h3: \<open>bindE (parse_args ?rt ''{"issueId":"1"}'') (dispatch_args example_state ''get-issue'')
       = Inr (Call ?call)\<close>
    by (simp add: parse_args_def trim_def js_whitespace_def example_runtime_def bindE_def
        dispatch_args_def switch_one_parameter require1_def example_state_def js_or_def
        object_prototype_names_def)
  have h4: \<open>api ?rt = spec_operation example_backend \<and> resolve example_backend ?call = Inr ?cl\<close>
    by (simp add: example_backend_def)
  have h5: \<open>remote example_backend ?cl ?call = Inl (Error ''Request failed with status code 401'')\<close>
    by (simp add: example_backend_def)
  note claim = remote_exception_is_reported [OF h1 h2 h3, of _ _ example_backend ?cl]
  note spec = claim [THEN conjunct2, THEN conjunct2, THEN conjunct2, THEN conjunct2, THEN mp, OF h4]
  have c1: \<open>api ?rt ?call = Inr (Failure ''Request failed with status code 401'')\<close>
    using spec [THEN conjunct1] unfolding h5 by simp
  have c2: \<open>runCommand ?rt example_state ''get-issue'' ''{"issueId":"1"}'' =
       [Invoke ?call, Console_error [''\<newline>Request failed with status code 401''], Prompt]\<close>
    using spec [THEN conjunct2] unfolding h5 by simp
  show ?thesis
    using h1 h2 h3 h4 [THEN conjunct1] h5 c1 c2 by (intro conjI)
qed

section \<open>Properties of the configuration loader\<close>

lemma loadConfig_document:
  \<open>read_document h dir = Inr doc \<Longrightarrow> loadConfig h dir = validate_config doc\<close>
  by (simp add: loadConfig_def bindE_def)

lemma validate_profiles_append:
  \<open>validate_profiles (xs @ ys) =
     (case validate_profiles xs of Inl e \<Rightarrow> Inl e | Inr u \<Rightarrow> validate_profiles ys)\<close>
  by (induction xs) (auto simp: bindE_def split: sum.splits)

text \<open>
  C5. The loader looks for the document at one path, \<^verbatim>\<open>.claude/sentry-config.local.md\<close>
  under the root. When no file exists there it throws, and the message contains the path
  it tried. Nothing but that path is consulted: two file systems that agree there give the
  same result.
\<close>

theorem config_file_not_found:
  \<open>configPath h dir = path_join h [dir, ''.claude'', ''sentry-config.local.md'']
   \<and> (\<not> existsSync h (configPath h dir) \<longrightarrow>
        loadConfig h dir =
          Inl (Error (''Configuration file not found at '' @ configPath h dir @ ''\<newline>''
                      @ ''Please create .claude/sentry-config.local.md with your Sentry profiles.'')))
   \<and> (path_join h' = path_join h \<and> yaml_parse h' = yaml_parse h
        \<and> existsSync h' (configPath h dir) = existsSync h (configPath h dir)
        \<and> readFileSync h' (configPath h dir) = readFileSync h (configPath h dir) \<longrightarrow>
        loadConfig h' dir = loadConfig h dir)\<close>
proof (intro conjI impI)
  show \<open>configPath h dir = path_join h [dir, ''.claude'', ''sentry-config.local.md'']\<close>
    by (simp add: configPath_def)
next
  assume \<open>\<not> existsSync h (configPath h dir)\<close>
  then show \<open>loadConfig h dir =
      Inl (Error (''Configuration file not found at '' @ configPath h dir @ ''\<newline>''
                  @ ''Please create .claude/sentry-config.local.md with your Sentry profiles.''))\<close>
    by (simp add: loadConfig_def read_document_def bindE_def)
next
  assume same: \<open>path_join h' = path_join h \<and> yaml_parse h' = yaml_parse h
        \<and> existsSync h' (configPath h dir) = existsSync h (configPath h dir)
        \<and> readFileSync h' (configPath h dir) = readFileSync h (configPath h dir)\<close>
  then have path: \<open>configPath h' dir = configPath h dir\<close>
    by (simp add: configPath_def)
  from same have yaml: \<open>yaml_parse h' = yaml_parse h\<close>
    and ex: \<open>existsSync h' (configPath h dir) = existsSync h (configPath h dir)\<close>
    and rd: \<open>readFileSync h' (configPath h dir) = readFileSync h (configPath h dir)\<close>
    by simp_all
  have \<open>read_document h' dir = read_document h dir\<close>
    unfolding read_document_def path yaml ex rd ..
  then show \<open>loadConfig h' dir = loadConfig h dir\<close>
    by (simp add: loadConfig_def)
qed

theorem config_file_not_found_witness:
  \<open>\<not> existsSync example_host (configPath example_host ''/none'')
   \<and> configPath example_host ''/none'' = ''/none/.claude/sentry-config.local.md''
   \<and> loadConfig example_host ''/none'' =
       Inl (Error (''Configuration file not found at /none/.claude/sentry-config.local.md\<newline>''
                   @ ''Please create .claude/sentry-config.local.md with your Sentry profiles.''))
   \<and> loadConfig (example_host\<lparr>existsSync := \<lambda>path. path = ''/elsewhere''\<rparr>) ''/none''
       = loadConfig example_host ''/none''\<close>
proof -
  let ?h' = \<open>example_host\<lparr>existsSync := \<lambda>path. path = ''/elsewhere''\<rparr>\<close>
  have p: \<open>configPath example_host ''/none'' = ''/none/.claude/sentry-config.local.md''\<close>
    by (simp add: configPath_def example_host_def)
  have h1: \<open>\<not> existsSync example_host (configPath example_host ''/none'')\<close>
    unfolding p by (simp add: example_host_def example_files_def)
  have h2: \<open>path_join ?h' = path_join example_host \<and> yaml_parse ?h' = yaml_parse example_host
        \<and> existsSync ?h' (configPath example_host ''/none'')
            = existsSync example_host (configPath example_host ''/none'')
        \<and> readFileSync ?h' (configPath example_host ''/none'')
            = readFileSync example_host (configPath example_host ''/none'')\<close>
    using h1 unfolding p by simp
  note claim = config_file_not_found [of example_host \<open>''/none''\<close> ?h']
  have c2: \<open>loadConfig example_host ''/none'' =
       Inl (Error (''Configuration file not found at /none/.claude/sentry-config.local.md\<newline>''
                   @ ''Please create .claude/sentry-config.local.md with your Sentry profiles.''))\<close>
    using claim [THEN conjunct2, THEN conjunct1, THEN mp, OF h1] unfolding p by simp
  have c3: \<open>loadConfig ?h' ''/none'' = loadConfig example_host ''/none''\<close>
    using claim [THEN conjunct2, THEN conjunct2, THEN mp, OF h2] .
  show ?thesis
  proof (intro conjI)
    show \<open>\<not> existsSync example_host (configPath example_host ''/none'')\<close> by (rule h1)
    show \<open>configPath example_host ''/none'' = ''/none/.claude/sentry-config.local.md''\<close> by (rule p)
    show \<open>loadConfig example_host ''/none'' =
       Inl (Error (''Configuration file not found at /none/.claude/sentry-config.local.md\<newline>''
                   @ ''Please create .claude/sentry-config.local.md with your Sentry profiles.''))\<close>
      by (rule c2)
    show \<open>loadConfig ?h' ''/none'' = loadConfig example_host ''/none''\<close> by (rule c3)
  qed
qed

text \<open>
  Where the name is neither a profile nor a member that plain objects inherit,
  \<^verbatim>\<open>getSentryClientOptions\<close> throws, and the message lists every profile.
\<close>

lemma profile_not_found:
  assumes \<open>profiles config = JObject ps\<close> and \<open>map_of ps name = None\<close>
    and \<open>name \<notin> set object_prototype_names\<close>
  shows \<open>getSentryClientOptions config name =
           Inl (Error (''Profile "'' @ name @ ''" not found. Available profiles: ''
                       @ join '', '' (map fst ps)))\<close>
  using assms by (simp add: getSentryClientOptions_def bindE_def object_keys_def)

text \<open>
  C6. The claim fails for a name that plain objects inherit from
  \<^verbatim>\<open>Object.prototype\<close>: \<^verbatim>\<open>constructor\<close> is not a profile of the configuration of the
  tests, yet \<^verbatim>\<open>config.profiles['constructor']\<close> is truthy and options are returned.
\<close>

theorem inherited_name_is_resolved:
  \<open>''constructor'' \<notin> set (object_keys (profiles example_config))
   \<and> getSentryClientOptions example_config ''constructor'' =
       Inr \<lparr>authToken = JUndefined, organization = JUndefined,
            baseUrl = JString ''https://sentry.io/api/0''\<rparr>\<close>
  by (simp add: getSentryClientOptions_def example_config_def bindE_def object_keys_def
      object_prototype_names_def js_or_def)

text \<open>
  C7. For a configuration that is valid in the sense of the specification (a base URL,
  when present, begins with \<^verbatim>\<open>http://\<close> or \<^verbatim>\<open>https://\<close>) and a name among its
  profiles, the options are the token and the organization of that profile, and the base
  URL is the one of the profile when it has one and \<^verbatim>\<open>https://sentry.io/api/0\<close>
  otherwise.
\<close>

theorem client_options_of_profile:
  assumes \<open>profiles config = JObject ps\<close> and \<open>map_of ps name = Some (JObject fs)\<close>
    and \<open>map_of fs ''authToken'' = Some token\<close> and \<open>map_of fs ''organization'' = Some org\<close>
    and \<open>case map_of fs ''baseUrl'' of None \<Rightarrow> True | Some url \<Rightarrow> spec_valid_baseUrl url\<close>
  shows \<open>getSentryClientOptions config name =
           Inr \<lparr>authToken = token, organization = org,
                baseUrl = (case map_of fs ''baseUrl'' of
                             None \<Rightarrow> JString ''https://sentry.io/api/0''
                           | Some url \<Rightarrow> url)\<rparr>\<close>
proof (cases \<open>map_of fs ''baseUrl''\<close>)
  case None
  with assms show ?thesis
    by (simp add: getSentryClientOptions_def bindE_def js_or_def object_prototype_names_def)
next
  case (Some url)
  with assms(5) obtain s where url: \<open>url = JString s\<close>
    and \<open>prefix ''http://'' s \<or> prefix ''https://'' s\<close>
    by (cases url) auto
  then have \<open>s \<noteq> []\<close> by auto
  with url Some assms(1-4) show ?thesis
    by (simp add: getSentryClientOptions_def bindE_def js_or_def)
qed

theorem client_options_of_profile_witness:
  \<open>getSentryClientOptions example_config ''staging'' =
     Inr \<lparr>authToken = JString ''STAGING_TOKEN'', organization = JString ''staging-org'',
          baseUrl = JString ''https://staging.sentry.io/api/0''\<rparr>
   \<and> getSentryClientOptions example_config ''production'' =
     Inr \<lparr>authToken = JString ''PROD_TOKEN'', organization = JString ''prod-org'',
          baseUrl = JString ''https://sentry.io/api/0''\<rparr>\<close>
proof -
  let ?production = \<open>[(''authToken'', JString ''PROD_TOKEN''), (''organization'', JString ''prod-org'')]\<close>
  let ?staging = \<open>[(''authToken'', JString ''STAGING_TOKEN''), (''organization'', JString ''staging-org''),
                  (''baseUrl'', JString ''https://staging.sentry.io/api/0'')]\<close>
  let ?ps = \<open>[(''production'', JObject ?production), (''staging'', JObject ?staging)]\<close>
  have h1: \<open>profiles example_config = JObject ?ps\<close> by (simp add: example_config_def)
  have s2: \<open>map_of ?ps ''staging'' = Some (JObject ?staging)\<close> by simp
  have s3: \<open>map_of ?staging ''authToken'' = Some (JString ''STAGING_TOKEN'')\<close> by simp
  have s4: \<open>map_of ?staging ''organization'' = Some (JString ''staging-org'')\<close> by simp
  have s5: \<open>case map_of ?staging ''baseUrl'' of None \<Rightarrow> True | Some url \<Rightarrow> spec_valid_baseUrl url\<close>
    by simp
  have p2: \<open>map_of ?ps ''production'' = Some (JObject ?production)\<close> by simp
  have p3: \<open>map_of ?production ''authToken'' = Some (JString ''PROD_TOKEN'')\<close> by simp
  have p4: \<open>map_of ?production ''organization'' = Some (JString ''prod-org'')\<close> by simp
  have p5: \<open>case map_of ?production ''baseUrl'' of None \<Rightarrow> True | Some url \<Rightarrow> spec_valid_baseUrl url\<close>
    by simp
  from client_options_of_profile [OF h1 s2 s3 s4 s5] client_options_of_profile [OF h1 p2 p3 p4 p5]
  show ?thesis by simp
qed














text \<open>
  C9. A document whose \<^verbatim>\<open>profiles\<close> mapping is empty and which sets no
  \<^verbatim>\<open>defaultProfile\<close> loads without an exception: \<^verbatim>\<open>profiles\<close> is the empty mapping
  and \<^verbatim>\<open>defaultProfile\<close> is \<^verbatim>\<open>undefined\<close>, which names no profile.
\<close>

theorem empty_profiles_accepted:
  assumes \<open>read_document h dir = Inr (JObject kvs)\<close>
    and \<open>map_of kvs ''profiles'' = Some (JObject [])\<close>
    and \<open>map_of kvs ''defaultProfile'' = None\<close>
  shows \<open>loadConfig h dir =
           Inr \<lparr>profiles = JObject [],
                defaultProfile = JUndefined,
                defaultFormat = (case map_of kvs ''defaultFormat'' of
                                   None \<Rightarrow> JString ''json''
                                 | Some df \<Rightarrow> js_or df (JString ''json''))\<rparr>\<close>
  unfolding loadConfig_document [OF assms(1)] using assms(2,3)
  by (simp add: validate_config_def bindE_def object_prototype_names_def object_keys_def
      first_key_def js_or_def split: option.splits)

theorem empty_profiles_accepted_witness:
  \<open>read_document example_host ''/empty'' = Inr (JObject [(''profiles'', JObject [])])
   \<and> map_of [(''profiles'', JObject [])] ''profiles'' = Some (JObject [])
   \<and> map_of [(''profiles'', JObject [])] ''defaultProfile'' = None
   \<and> loadConfig example_host ''/empty'' =
       Inr \<lparr>profiles = JObject [], defaultProfile = JUndefined, defaultFormat = JString ''json''\<rparr>\<close>
proof -
  have h1: \<open>read_document example_host ''/empty'' = Inr (JObject [(''profiles'', JObject [])])\<close>
    by (simp add: read_document_def configPath_def example_host_def example_files_def
        example_yaml_def bindE_def frontmatter_match_def)
  have h2: \<open>map_of [(''profiles'', JObject [])] ''profiles'' = Some (JObject [])\<close> by simp
  have h3: \<open>map_of [(''profiles'', JObject [])] ''defaultProfile'' = None\<close> by simp
  from empty_profiles_accepted [OF h1 h2 h3] h1 show ?thesis by simp
qed


lemma check_required_falsy:
  assumes \<open>field \<in> set [''authToken'', ''organization'']\<close>
    and \<open>map_of fs field = Some w\<close> and \<open>\<not> truthy w\<close>
  shows \<open>check_required name (JObject fs) [''authToken'', ''organization''] =
           Inl (Error (''Profile "'' @ name @ ''" missing required field: '' @ field))
         \<or> field = ''organization''
           \<and> check_required name (JObject fs) [''authToken'', ''organization''] =
               Inl (Error (''Profile "'' @ name @ ''" missing required field: authToken''))\<close>
proof -
  obtain token where token: \<open>get_prop (JObject fs) ''authToken'' = Inr token\<close>
    using get_prop_object_total by blast
  show ?thesis
  proof (cases \<open>truthy token\<close>)
    case False
    with token assms(1) show ?thesis
      by (auto simp: bindE_def simp del: get_prop.simps)
  next
    case True
    with token assms have \<open>field = ''organization''\<close> by auto
    with True token assms(2,3) show ?thesis
      by (simp add: bindE_def)
  qed
qed

lemma validate_profiles_falsy:
  assumes \<open>validate_profiles good = Inr ()\<close>
    and \<open>check_required name profile [''authToken'', ''organization''] = Inl e\<close>
  shows \<open>validate_profiles (good @ (name, profile) # rest) = Inl e\<close>
  using assms by (simp add: validate_profiles_append bindE_def)

lemma validate_config_profiles:
  assumes \<open>get_prop doc ''profiles'' = Inr (JObject ps)\<close> and \<open>validate_profiles ps = Inl e\<close>
  shows \<open>validate_config doc = Inl e\<close>
  using assms by (simp add: validate_config_def bindE_def)

text \<open>
  C10. Presence of a required value is decided by truthiness. In the dispatcher, a
  required parameter that is present with a falsy value (the empty string, 0,
  \<^verbatim>\<open>false\<close>, \<^verbatim>\<open>null\<close>) gives the failure that an absent one gives, and no remote
  call is made. In the loader, a profile whose \<^verbatim>\<open>authToken\<close> or \<^verbatim>\<open>organization\<close> is
  present with a falsy value is rejected as missing a required field: the message names
  that field, or \<^verbatim>\<open>authToken\<close> when the falsy field is \<^verbatim>\<open>organization\<close> and the
  token is falsy too. (The profiles declared before it have passed validation.)
\<close>

theorem falsy_value_counts_as_missing:
  assumes \<open>(c, req) \<in> set spec_catalog\<close> and \<open>p \<in> set req\<close>
    and \<open>map_of kvs p = Some v\<close> and \<open>\<not> truthy v\<close>
    and \<open>cli_config st \<noteq> None\<close> and \<open>truthy (currentProfile st)\<close>
    and \<open>parse_args rt arg = Inr (JObject kvs)\<close>
    and \<open>read_document h dir = Inr doc\<close>
    and \<open>get_prop doc ''profiles'' = Inr (JObject (good @ (name, JObject fs) # rest))\<close>
    and \<open>validate_profiles good = Inr ()\<close>
    and \<open>field \<in> set [''authToken'', ''organization'']\<close>
    and \<open>map_of fs field = Some w\<close> and \<open>\<not> truthy w\<close>
  shows \<open>runCommand rt st c arg = [Console_error [spec_required_message req], Prompt]
         \<and> invoked (runCommand rt st c arg) = []
         \<and> (loadConfig h dir =
               Inl (Error (''Profile "'' @ name @ ''" missing required field: '' @ field))
             \<or> field = ''organization''
               \<and> loadConfig h dir =
                   Inl (Error (''Profile "'' @ name @ ''" missing required field: authToken'')))\<close>
proof -
  have \<open>get_prop (JObject kvs) p = Inr v\<close>
    using assms(3) by simp
  then have run: \<open>runCommand rt st c arg = [Console_error [spec_required_message req], Prompt]\<close>
    using assms(1,2,4-7) by (intro runCommand_falsy_parameter [where p = p and v = v])
  have load: \<open>loadConfig h dir = Inl e\<close>
    if \<open>check_required name (JObject fs) [''authToken'', ''organization''] = Inl e\<close> for e
    unfolding loadConfig_document [OF assms(8)]
    using assms(9) validate_profiles_falsy [OF assms(10) that]
    by (rule validate_config_profiles)
  from check_required_falsy [OF assms(11-13), of name] load
  have \<open>loadConfig h dir =
               Inl (Error (''Profile "'' @ name @ ''" missing required field: '' @ field))
             \<or> field = ''organization''
               \<and> loadConfig h dir =
                   Inl (Error (''Profile "'' @ name @ ''" missing required field: authToken''))\<close>
    by (elim disjE conjE) simp_all
  with run show ?thesis by simp
qed

theorem falsy_value_counts_as_missing_witness:
  \<open>(''get-issue'', [''issueId'']) \<in> set spec_catalog \<and> ''issueId'' \<in> set [''issueId'']
   \<and> map_of [(''issueId'', JString [])] ''issueId'' = Some (JString [])
   \<and> \<not> truthy (JString [])
   \<and> cli_config example_state \<noteq> None \<and> truthy (currentProfile example_state)
   \<and> parse_args example_runtime ''{"issueId":""}'' = Inr (JObject [(''issueId'', JString [])])
   \<and> read_document example_host ''/falsy'' =
       Inr (JObject [(''profiles'',
                      JObject [(''test'', JObject [(''authToken'', JString []),
                                                  (''organization'', JString ''test-org'')])])])
   \<and> validate_profiles [] = Inr ()
   \<and> ''authToken'' \<in> set [''authToken'', ''organization'']
   \<and> runCommand example_runtime example_state ''get-issue'' ''{"issueId":""}''
       = [Console_error [''ERROR: "issueId" parameter is required''], Prompt]
   \<and> invoked (runCommand example_runtime example_state ''get-issue'' ''{"issueId":""}'') = []
   \<and> loadConfig example_host ''/falsy'' =
       Inl (Error ''Profile "test" missing required field: authToken'')\<close>
proof -
  let ?fs = \<open>[(''authToken'', JString []), (''organization'', JString ''test-org'')]\<close>
  let ?doc = \<open>JObject [(''profiles'', JObject [(''test'', JObject ?fs)])]\<close>
  have h1: \<open>(''get-issue'', [''issueId'']) \<in> set spec_catalog\<close> by (simp add: spec_catalog_def)
  have h2: \<open>''issueId'' \<in> set [''issueId'']\<close> by simp
  have h3: \<open>map_of [(''issueId'', JString [])] ''issueId'' = Some (JString [])\<close> by simp
  have h4: \<open>\<not> truthy (JString [])\<close> by simp
  have h5: \<open>cli_config example_state \<noteq> None\<close> by (simp add: example_state_def)
  have h6: \<open>truthy (currentProfile example_state)\<close> by (simp add: example_state_def)
  have h7: \<open>parse_args example_runtime ''{"issueId":""}'' = Inr (JObject [(''issueId'', JString [])])\<close>
    by (simp add: parse_args_def trim_def js_whitespace_def example_runtime_def)
  have h8: \<open>read_document example_host ''/falsy'' = Inr ?doc\<close>
    by (simp add: read_document_def configPath_def example_host_def example_files_def
        example_yaml_def bindE_def frontmatter_match_def)
  have h9: \<open>get_prop ?doc ''profiles'' = Inr (JObject ([] @ (''test'', JObject ?fs) # []))\<close>
    by simp
  have h10: \<open>validate_profiles [] = Inr ()\<close> by simp
  have h11: \<open>''authToken'' \<in> set [''authToken'', ''organization'']\<close> by simp
  have h12: \<open>map_of ?fs ''authToken'' = Some (JString [])\<close> by simp
  from falsy_value_counts_as_missing [OF h1 h2 h3 h4 h5 h6 h7 h8 h9 h10 h11 h12 h4]
    h1 h2 h3 h4 h5 h6 h7 h8 h10 h11
  show ?thesis by simp
qed

section \<open>Properties of the client registry\<close>


lemma registry_ok_clearAll: \<open>registry_ok (clearAll reg)\<close>
  by (simp add: registry_ok_def clearAll_def)








end
